theory Spec2Isabelle
  imports Complex_Main
begin

section \<open>Data model\<close>

text \<open>
  The job marketplace stores three collections in a document database: jobs (with their
  embedded applications), user accounts and ledger transactions. An ObjectId is a natural
  number, a Date a number of milliseconds, and a JavaScript Number that may carry a
  fraction (money, average rating) a rational, so that arithmetic is exact.
  Every request is handled at one instant \<open>now\<close>, by the account \<open>uid\<close> that the
  authentication middleware has put in \<open>req.user\<close>.
\<close>

type_synonym oid = nat
type_synonym date = nat

datatype job_status = JActive | JInProgress | JCompleted | JCancelled | JExpired

datatype app_status = APending | AAccepted | ARejected | AWithdrawn

datatype payment_status = PPending | PPaid | PDisputed | PRefunded

datatype txn_type = Earned | Withdrawal | Refund | Bonus | Fee

datatype txn_status = TPending | TCompleted | TFailed | TCancelled

text \<open>An element of \<open>jobSchema.applications\<close> (models/Job.js).\<close>

record application =
  app_id :: oid
  app_worker :: oid
  app_status :: app_status
  appliedAt :: date
  app_message :: "string option"
  proposedPay :: "rat option"

text \<open>\<open>completion.workerRating\<close> and \<open>completion.employerRating\<close>.\<close>

record rating_rec =
  rating :: "int option"
  review :: "string option"
  ratedAt :: "date option"

text \<open>The fields of \<open>jobSchema\<close> that the lifecycle, the ledger and the ratings read or write.\<close>

record job =
  job_id :: oid
  title :: string
  companyName :: string
  employer :: oid
  pay_amount :: rat
  pay_currency :: string
  status :: job_status
  applications :: "application list"
  selectedWorker :: "oid option"
  startedAt :: "date option"
  completedAt :: "date option"
  workerRating :: rating_rec
  employerRating :: rating_rec
  payment_status :: payment_status
  paidAt :: "date option"
  payment_amount :: "rat option"
  transactionId :: "oid option"
  applicationsCount :: nat
  expiresAt :: date

text \<open>An element of \<open>userSchema.paymentMethods\<close>, and the account (models/User.js).\<close>

record payment_method =
  pm_id :: oid
  pm_name :: string

record user =
  user_id :: oid
  wallet_balance :: rat
  wallet_currency :: string
  paymentMethods :: "payment_method list"
  completedJobs :: nat
  totalEarnings :: rat
  averageRating :: rat
  totalReviews :: nat

text \<open>A ledger entry (models/Transaction.js).\<close>

record transaction =
  txn_id :: oid
  txn_user :: oid
  txn_type :: txn_type
  amount :: rat
  currency :: string
  description :: string
  txn_job :: "oid option"
  txn_paymentMethod :: "oid option"
  txn_status :: txn_status
  processedAt :: "date option"
  failedAt :: "date option"
  failureReason :: "string option"

text \<open>
  The database: the three collections and the source of fresh ObjectIds. Jobs and
  transactions are lists because the code queries them (\<open>Job.find\<close>, \<open>aggregate\<close>).
\<close>

record db =
  jobs :: "job list"
  users :: "oid \<rightharpoonup> user"
  transactions :: "transaction list"
  next_id :: oid

text \<open>
  What a rejected promise carries, and what a handler answers: the HTTP status, the
  message of the JSON envelope and its \<open>data\<close> when there is one. The envelope of a
  validation failure lists the field errors and has no message; it is written
  \<open>(400, ''validation'', None)\<close>.
\<close>

datatype error = ValidationError | Error string

type_synonym 'a reply = "nat \<times> string \<times> 'a option"

text \<open>
  The outcome of a model method that writes to the database: the value or the error, and
  the database as the writes made before the return or the throw have left it.
\<close>

type_synonym 'a outcome = "(error + 'a) \<times> db"

section \<open>Database access\<close>

definition findById :: "job list \<Rightarrow> oid \<Rightarrow> job option" where
  "findById js i = find (\<lambda>j. job_id j = i) js"

text \<open>\<open>job.save()\<close>: the stored document with the same \<open>_id\<close> takes the fields of \<open>j\<close>.\<close>

definition save_job :: "job \<Rightarrow> db \<Rightarrow> db" where
  "save_job j d = d\<lparr>jobs := map (\<lambda>x. if job_id x = job_id j then j else x) (jobs d)\<rparr>"

text \<open>\<open>applications.id(applicationId)\<close>: the first sub-document with that \<open>_id\<close>.\<close>

definition app_by_id :: "application list \<Rightarrow> oid \<Rightarrow> application option" where
  "app_by_id as i = find (\<lambda>a. app_id a = i) as"

text \<open>
  Assigning \<open>application.status\<close> through the sub-document that \<open>applications.id\<close>
  returned: the first element with that \<open>_id\<close> changes, the list keeps its order.
\<close>

fun set_app_status :: "oid \<Rightarrow> app_status \<Rightarrow> application list \<Rightarrow> application list" where
  "set_app_status i s [] = []"
| "set_app_status i s (a # as) =
     (if app_id a = i then a\<lparr>app_status := s\<rparr> # as else a # set_app_status i s as)"

section \<open>The job model (models/Job.js)\<close>

definition isExpired :: "date \<Rightarrow> job \<Rightarrow> bool" where
  "isExpired now j = (now > expiresAt j)"

definition canApply :: "date \<Rightarrow> job \<Rightarrow> oid \<Rightarrow> bool" where
  "canApply now j userId =
     (if status j \<noteq> JActive then False
      else if isExpired now j then False
      else if employer j = userId then False
      else (case find (\<lambda>a. app_worker a = userId) (applications j) of
              None \<Rightarrow> True
            | Some existingApplication \<Rightarrow> False))"

text \<open>
  \<open>job.apply(userId, message, proposedPay)\<close>. The pushed sub-document takes the schema
  defaults: a fresh \<open>_id\<close>, status \<open>pending\<close>, \<open>appliedAt\<close> now.
\<close>

definition job_apply ::
  "db \<Rightarrow> date \<Rightarrow> job \<Rightarrow> oid \<Rightarrow> string option \<Rightarrow> rat option \<Rightarrow> job outcome" where
  "job_apply d now j userId msg pay =
     (if \<not> canApply now j userId then (Inl (Error ''Cannot apply for this job''), d)
      else
        let a = \<lparr>app_id = next_id d, app_worker = userId, app_status = APending,
                 appliedAt = now, app_message = msg, proposedPay = pay\<rparr>;
            j1 = j\<lparr>applications := applications j @ [a]\<rparr>;
            j2 = j1\<lparr>applicationsCount := length (applications j1)\<rparr>
        in (Inr j2, save_job j2 (d\<lparr>next_id := Suc (next_id d)\<rparr>)))"

definition acceptApplication :: "db \<Rightarrow> job \<Rightarrow> oid \<Rightarrow> job outcome" where
  "acceptApplication d j applicationId =
     (case app_by_id (applications j) applicationId of
        None \<Rightarrow> (Inl (Error ''Application not found''), d)
      | Some application \<Rightarrow>
          let j' = j\<lparr>applications := set_app_status applicationId AAccepted (applications j),
                     selectedWorker := Some (app_worker application),
                     status := JInProgress\<rparr>
          in (Inr j', save_job j' d))"

definition complete :: "db \<Rightarrow> date \<Rightarrow> job \<Rightarrow> job outcome" where
  "complete d now j =
     (let j' = j\<lparr>status := JCompleted, completedAt := Some now\<rparr>
      in (Inr j', save_job j' d))"

section \<open>The application routes (routes/applications.js)\<close>

text \<open>
  \<open>POST /api/applications/:jobId\<close>. The validators accept a message of at most 500
  characters (\<open>msg\<close> is the body field as the \<open>trim\<close> sanitizer leaves it) and a
  proposed pay of at least 1.
\<close>

definition valid_apply_body :: "string option \<Rightarrow> rat option \<Rightarrow> bool" where
  "valid_apply_body msg pay =
     ((case msg of None \<Rightarrow> True | Some m \<Rightarrow> length m \<le> 500) \<and>
      (case pay of None \<Rightarrow> True | Some p \<Rightarrow> 1 \<le> p))"

definition post_application ::
  "db \<Rightarrow> date \<Rightarrow> oid \<Rightarrow> oid \<Rightarrow> string option \<Rightarrow> rat option \<Rightarrow> job reply \<times> db" where
  "post_application d now uid jobId msg pay =
     (if \<not> valid_apply_body msg pay then ((400, ''validation'', None), d)
      else case findById (jobs d) jobId of
        None \<Rightarrow> ((404, ''Job not found'', None), d)
      | Some j \<Rightarrow>
          if \<not> canApply now j uid then ((400, ''Cannot apply for this job'', None), d)
          else (case job_apply d now j uid msg pay of
                  (Inl e, d') \<Rightarrow> ((500, ''Server error'', None), d')
                | (Inr j', d') \<Rightarrow>
                    ((201, ''Application submitted successfully'', Some j'), d')))"

text \<open>\<open>PUT /api/applications/:jobId/:applicationId\<close> with the body's \<open>action\<close>.\<close>

definition put_application ::
  "db \<Rightarrow> date \<Rightarrow> oid \<Rightarrow> oid \<Rightarrow> oid \<Rightarrow> string \<Rightarrow> job reply \<times> db" where
  "put_application d now uid jobId applicationId action =
     (if action \<notin> {''accept'', ''reject'', ''withdraw''} then ((400, ''validation'', None), d)
      else case findById (jobs d) jobId of
        None \<Rightarrow> ((404, ''Job not found'', None), d)
      | Some j \<Rightarrow>
         (case app_by_id (applications j) applicationId of
            None \<Rightarrow> ((404, ''Application not found'', None), d)
          | Some application \<Rightarrow>
              if action = ''accept'' then
                if employer j \<noteq> uid
                then ((403, ''Only job owner can accept applications'', None), d)
                else if status j \<noteq> JActive
                then ((400, ''Cannot accept application for inactive job'', None), d)
                else (case acceptApplication d j applicationId of
                        (Inl e, d1) \<Rightarrow> ((500, ''Server error'', None), d1)
                      | (Inr j1, d1) \<Rightarrow>
                          let j2 = j1\<lparr>status := JInProgress, startedAt := Some now\<rparr>
                          in ((200, ''Application accepted successfully'', Some j2),
                              save_job j2 d1))
              else if action = ''reject'' then
                if employer j \<noteq> uid
                then ((403, ''Only job owner can reject applications'', None), d)
                else
                  let j1 = j\<lparr>applications :=
                              set_app_status applicationId ARejected (applications j)\<rparr>
                  in ((200, ''Application rejected successfully'', Some j1), save_job j1 d)
              else
                if app_worker application \<noteq> uid
                then ((403, ''Only applicant can withdraw their application'', None), d)
                else
                  let j1 = j\<lparr>applications :=
                              set_app_status applicationId AWithdrawn (applications j)\<rparr>
                  in ((200, ''Application withdrawn successfully'', Some j1), save_job j1 d)))"

text \<open>\<open>DELETE /api/applications/:jobId\<close>: the answer carries no data.\<close>

definition delete_application :: "db \<Rightarrow> oid \<Rightarrow> oid \<Rightarrow> job reply \<times> db" where
  "delete_application d uid jobId =
     (case findById (jobs d) jobId of
        None \<Rightarrow> ((404, ''Job not found'', None), d)
      | Some j \<Rightarrow>
         (case find (\<lambda>a. app_worker a = uid) (applications j) of
            None \<Rightarrow> ((404, ''Application not found'', None), d)
          | Some userApplication \<Rightarrow>
              if app_status userApplication \<noteq> APending
              then ((400, ''Cannot withdraw application that is not pending'', None), d)
              else
                let j1 = j\<lparr>applications := filter (\<lambda>a. app_worker a \<noteq> uid) (applications j)\<rparr>;
                    j2 = j1\<lparr>applicationsCount := length (applications j1)\<rparr>
                in ((200, ''Application withdrawn successfully'', None), save_job j2 d)))"

section \<open>The ledger (models/Transaction.js)\<close>

text \<open>\<open>getUserBalance\<close>: the aggregate sums the stored entries of the account that are completed.\<close>

definition getUserBalance :: "transaction list \<Rightarrow> oid \<Rightarrow> rat" where
  "getUserBalance ts userId =
     sum_list (map amount (filter (\<lambda>t. txn_user t = userId \<and> txn_status t = TCompleted) ts))"

text \<open>
  \<open>user.wallet.balance = balance; await user.save()\<close>. The schema gives the balance
  \<open>min: 0\<close>, so saving a negative balance is rejected with a validation error.
\<close>

definition save_balance :: "oid \<Rightarrow> user \<Rightarrow> rat \<Rightarrow> db \<Rightarrow> unit outcome" where
  "save_balance userId u balance d =
     (if balance < 0 then (Inl ValidationError, d)
      else (Inr (), d\<lparr>users := (users d)(userId \<mapsto> u\<lparr>wallet_balance := balance\<rparr>)\<rparr>))"

text \<open>The argument of \<open>createTransaction\<close>; \<open>user\<close> is required by the schema.\<close>

record txn_data =
  d_user :: "oid option"
  d_type :: txn_type
  d_amount :: rat
  d_currency :: string
  d_description :: string
  d_job :: "oid option"
  d_paymentMethod :: "oid option"
  d_status :: txn_status

definition createTransaction :: "db \<Rightarrow> txn_data \<Rightarrow> transaction outcome" where
  "createTransaction d data =
     (case d_user data of
        None \<Rightarrow> (Inl ValidationError, d)
      | Some userId \<Rightarrow>
          let t = \<lparr>txn_id = next_id d, txn_user = userId, txn_type = d_type data,
                   amount = d_amount data, currency = d_currency data,
                   description = d_description data, txn_job = d_job data,
                   txn_paymentMethod = d_paymentMethod data, txn_status = d_status data,
                   processedAt = None, failedAt = None, failureReason = None\<rparr>;
              d1 = d\<lparr>transactions := transactions d @ [t], next_id := Suc (next_id d)\<rparr>
          in (case users d1 userId of
                None \<Rightarrow> (Inr t, d1)
              | Some u \<Rightarrow>
                  let balance = getUserBalance (transactions d1) userId
                  in (case save_balance userId u balance d1 of
                        (Inl e, d2) \<Rightarrow> (Inl e, d2)
                      | (Inr _, d2) \<Rightarrow> (Inr t, d2))))"

text \<open>\<open>transaction.save()\<close>: the stored entry with the same \<open>_id\<close> takes the fields of \<open>t\<close>.\<close>

definition save_txn :: "transaction \<Rightarrow> db \<Rightarrow> db" where
  "save_txn t d =
     d\<lparr>transactions := map (\<lambda>x. if txn_id x = txn_id t then t else x) (transactions d)\<rparr>"

text \<open>
  \<open>transaction.process()\<close> on the document \<open>this\<close> that the caller holds. The status is
  assigned on that document, the balance is aggregated from the stored entries, and
  \<open>this.save()\<close> comes last.
\<close>

definition process :: "db \<Rightarrow> date \<Rightarrow> transaction \<Rightarrow> transaction outcome" where
  "process d now this =
     (let this1 = this\<lparr>txn_status := TCompleted, processedAt := Some now\<rparr>
      in case users d (txn_user this1) of
           None \<Rightarrow> (Inr this1, save_txn this1 d)
         | Some u \<Rightarrow>
             let balance = getUserBalance (transactions d) (txn_user this1)
             in (case save_balance (txn_user this1) u balance d of
                   (Inl e, d1) \<Rightarrow> (Inl e, d1)
                 | (Inr _, d1) \<Rightarrow> (Inr this1, save_txn this1 d1)))"

definition fail :: "db \<Rightarrow> date \<Rightarrow> transaction \<Rightarrow> string \<Rightarrow> transaction outcome" where
  "fail d now this reason =
     (let this1 = this\<lparr>txn_status := TFailed, failedAt := Some now, failureReason := Some reason\<rparr>
      in (Inr this1, save_txn this1 d))"

section \<open>The payment routes (routes/payments.js)\<close>

text \<open>
  \<open>POST /api/payments/withdraw\<close>. The validators want an amount of at least 1 and a
  payment method id that is not empty (\<open>None\<close> is the missing or empty field).
\<close>

definition post_withdraw ::
  "db \<Rightarrow> oid \<Rightarrow> rat \<Rightarrow> oid option \<Rightarrow> transaction reply \<times> db" where
  "post_withdraw d uid amt paymentMethodId =
     (if amt < 1 \<or> paymentMethodId = None then ((400, ''validation'', None), d)
      else case users d uid of
        None \<Rightarrow> ((500, ''Server error'', None), d)
      | Some u \<Rightarrow>
          if wallet_balance u < amt then ((400, ''Insufficient balance'', None), d)
          else (case find (\<lambda>p. Some (pm_id p) = paymentMethodId) (paymentMethods u) of
                  None \<Rightarrow> ((404, ''Payment method not found'', None), d)
                | Some paymentMethod \<Rightarrow>
                   (case createTransaction d
                           \<lparr>d_user = Some uid, d_type = Withdrawal, d_amount = - amt,
                            d_currency = wallet_currency u,
                            d_description = ''Withdrawal to '' @ pm_name paymentMethod,
                            d_job = None, d_paymentMethod = paymentMethodId,
                            d_status = TPending\<rparr> of
                      (Inl e, d1) \<Rightarrow> ((500, ''Server error'', None), d1)
                    | (Inr t, d1) \<Rightarrow>
                        ((200, ''Withdrawal initiated successfully'', Some t), d1))))"

text \<open>
  The task that \<open>setTimeout\<close> runs two seconds after a withdrawal was initiated, on the
  entry \<open>t\<close> that the handler holds: \<open>process\<close>, and \<open>fail\<close> when that throws (the
  document then carries what \<open>process\<close> had assigned before it threw).
\<close>

definition settle_withdrawal :: "db \<Rightarrow> date \<Rightarrow> transaction \<Rightarrow> db" where
  "settle_withdrawal d now t =
     (case process d now t of
        (Inr _, d1) \<Rightarrow> d1
      | (Inl e, d1) \<Rightarrow>
          snd (fail d1 now (t\<lparr>txn_status := TCompleted, processedAt := Some now\<rparr>)
                 ''Processing failed''))"

text \<open>\<open>POST /api/payments/complete-job/:jobId\<close>.\<close>

definition complete_job ::
  "db \<Rightarrow> date \<Rightarrow> oid \<Rightarrow> oid \<Rightarrow> (job \<times> transaction) reply \<times> db" where
  "complete_job d now uid jobId =
     (case findById (jobs d) jobId of
        None \<Rightarrow> ((404, ''Job not found'', None), d)
      | Some j \<Rightarrow>
          if employer j \<noteq> uid then ((403, ''Only job owner can complete the job'', None), d)
          else if status j \<noteq> JInProgress
          then ((400, ''Job must be in progress to complete'', None), d)
          else
            let j1 = j\<lparr>status := JCompleted, completedAt := Some now\<rparr>;
                d1 = save_job j1 d;
                paymentAmount = pay_amount j1
            in (case createTransaction d1
                        \<lparr>d_user = selectedWorker j1, d_type = Earned, d_amount = paymentAmount,
                         d_currency = pay_currency j1,
                         d_description = title j1 @ '' - '' @ companyName j1,
                         d_job = Some (job_id j1), d_paymentMethod = None,
                         d_status = TCompleted\<rparr> of
                  (Inl e, d2) \<Rightarrow> ((500, ''Server error'', None), d2)
                | (Inr t, d2) \<Rightarrow>
                    let j2 = j1\<lparr>payment_status := PPaid, paidAt := Some now,
                               payment_amount := Some paymentAmount,
                               transactionId := Some (txn_id t)\<rparr>;
                        d3 = save_job j2 d2;
                        ok = (200, ''Job completed and payment processed successfully'',
                              Some (j2, t))
                    in (case selectedWorker j2 of
                          None \<Rightarrow> (ok, d3)
                        | Some w \<Rightarrow>
                           (case users d3 w of
                              None \<Rightarrow> (ok, d3)
                            | Some worker \<Rightarrow>
                                (ok, d3\<lparr>users := (users d3)(w \<mapsto> worker
                                       \<lparr>completedJobs := completedJobs worker + 1,
                                        totalEarnings := totalEarnings worker + paymentAmount\<rparr>)\<rparr>)))))"

section \<open>The job update route (routes/jobs.js)\<close>

text \<open>
  \<open>PUT /api/jobs/:id\<close> hands the request body to \<open>findByIdAndUpdate\<close> as it is. The
  body is modelled by the fields it may set among those that the lifecycle reads:
  \<open>None\<close> is a field the body does not have, and \<open>Some None\<close> for the selected worker
  is \<open>null\<close>. With \<open>runValidators\<close> a pay amount below the schema's \<open>min: 1\<close> is
  rejected.
\<close>

record job_update =
  upd_pay_amount :: "rat option"
  upd_status :: "job_status option"
  upd_selectedWorker :: "oid option option"
  upd_applicationsCount :: "nat option"

definition apply_update :: "job_update \<Rightarrow> job \<Rightarrow> job" where
  "apply_update body j =
     j\<lparr>pay_amount := (case upd_pay_amount body of None \<Rightarrow> pay_amount j | Some p \<Rightarrow> p),
       status := (case upd_status body of None \<Rightarrow> status j | Some s \<Rightarrow> s),
       selectedWorker :=
         (case upd_selectedWorker body of None \<Rightarrow> selectedWorker j | Some w \<Rightarrow> w),
       applicationsCount :=
         (case upd_applicationsCount body of None \<Rightarrow> applicationsCount j | Some n \<Rightarrow> n)\<rparr>"

definition put_job :: "db \<Rightarrow> oid \<Rightarrow> oid \<Rightarrow> job_update \<Rightarrow> job reply \<times> db" where
  "put_job d uid jobId body =
     (case findById (jobs d) jobId of
        None \<Rightarrow> ((404, ''Job not found'', None), d)
      | Some j \<Rightarrow>
          if employer j \<noteq> uid then ((403, ''Not authorized to update this job'', None), d)
          else if status j \<noteq> JActive
          then ((400, ''Cannot update job that is not active'', None), d)
          else if (case upd_pay_amount body of None \<Rightarrow> False | Some p \<Rightarrow> p < 1)
          then ((500, ''Server error'', None), d)
          else
            let updatedJob = apply_update body j
            in ((200, ''Job updated successfully'', Some updatedJob), save_job updatedJob d))"

section \<open>The rating routes (routes/ratings.js)\<close>

text \<open>
  \<open>Math.round(x * 10) / 10\<close>: \<open>Math.round\<close> takes the nearest integer and, half way
  between two, the greater one.
\<close>

definition js_round :: "rat \<Rightarrow> int" where
  "js_round x = \<lfloor>x + 1 / 2\<rfloor>"

definition round1 :: "rat \<Rightarrow> rat" where
  "round1 x = of_int (js_round (x * 10)) / 10"

text \<open>\<open>if (existingRating)\<close>: a missing rating and the number 0 are falsy.\<close>

definition truthy :: "int option \<Rightarrow> bool" where
  "truthy r = (case r of None \<Rightarrow> False | Some n \<Rightarrow> n \<noteq> 0)"

text \<open>The validators: an integer rating from 1 to 5, a review of at most 1000 characters.\<close>

definition valid_rating_body :: "int \<Rightarrow> string option \<Rightarrow> bool" where
  "valid_rating_body r rv =
     (1 \<le> r \<and> r \<le> 5 \<and> (case rv of None \<Rightarrow> True | Some x \<Rightarrow> length x \<le> 1000))"

text \<open>
  \<open>POST /api/ratings/:jobId\<close>. \<open>job.selectedWorker.toString()\<close> throws when no worker
  is selected, which the handler answers with 500.
\<close>

definition post_rating ::
  "db \<Rightarrow> date \<Rightarrow> oid \<Rightarrow> oid \<Rightarrow> int \<Rightarrow> string option \<Rightarrow> job reply \<times> db" where
  "post_rating d now uid jobId r rv =
     (if \<not> valid_rating_body r rv then ((400, ''validation'', None), d)
      else case findById (jobs d) jobId of
        None \<Rightarrow> ((404, ''Job not found'', None), d)
      | Some j \<Rightarrow>
          if status j \<noteq> JCompleted then ((400, ''Can only rate completed jobs'', None), d)
          else (case selectedWorker j of
                  None \<Rightarrow> ((500, ''Server error'', None), d)
                | Some w \<Rightarrow>
                    let isEmployer = (employer j = uid);
                        isWorker = (w = uid)
                    in if \<not> isEmployer \<and> \<not> isWorker
                       then ((403, ''Not authorized to rate this job'', None), d)
                       else if truthy (if isEmployer then rating (employerRating j)
                                       else rating (workerRating j))
                       then ((400, ''You have already rated this job'', None), d)
                       else
                         let given = \<lparr>rating = Some r, review = rv, ratedAt = Some now\<rparr>;
                             j1 = (if isEmployer then j\<lparr>employerRating := given\<rparr>
                                   else j\<lparr>workerRating := given\<rparr>);
                             d1 = save_job j1 d;
                             ok = (200, ''Rating submitted successfully'', Some j1)
                         in if isEmployer then
                              (case users d1 w of
                                 None \<Rightarrow> (ok, d1)
                               | Some worker \<Rightarrow>
                                   let totalRatings = totalReviews worker + 1;
                                       totalRatingSum =
                                         averageRating worker * of_nat (totalReviews worker)
                                         + of_int r;
                                       newAverageRating = totalRatingSum / of_nat totalRatings
                                   in (ok, d1\<lparr>users := (users d1)(w \<mapsto> worker
                                             \<lparr>averageRating := round1 newAverageRating,
                                              totalReviews := totalRatings\<rparr>)\<rparr>))
                            else (ok, d1)))"

text \<open>
  The query of the update and delete handlers:
  \<open>Job.find({selectedWorker, 'completion.workerRating.rating': {$exists: true, $ne: null}})\<close>.
\<close>

definition rated_jobs :: "job list \<Rightarrow> oid \<Rightarrow> job list" where
  "rated_jobs js w =
     filter (\<lambda>j. selectedWorker j = Some w \<and> rating (workerRating j) \<noteq> None) js"

definition rating_sum :: "job list \<Rightarrow> int" where
  "rating_sum js = sum_list (map (\<lambda>j. case rating (workerRating j) of None \<Rightarrow> 0 | Some n \<Rightarrow> n) js)"

text \<open>
  \<open>PUT /api/ratings/:jobId\<close>. When the query finds no job the quotient is \<open>0 / 0\<close>,
  which is \<open>NaN\<close>; the account's \<open>averageRating\<close> is a Number, \<open>NaN\<close> is not cast to
  one, and \<open>worker.save()\<close> is rejected after the job has been saved.
\<close>

definition put_rating ::
  "db \<Rightarrow> date \<Rightarrow> oid \<Rightarrow> oid \<Rightarrow> int \<Rightarrow> string option \<Rightarrow> job reply \<times> db" where
  "put_rating d now uid jobId r rv =
     (if \<not> valid_rating_body r rv then ((400, ''validation'', None), d)
      else case findById (jobs d) jobId of
        None \<Rightarrow> ((404, ''Job not found'', None), d)
      | Some j \<Rightarrow>
         (case selectedWorker j of
            None \<Rightarrow> ((500, ''Server error'', None), d)
          | Some w \<Rightarrow>
              let isEmployer = (employer j = uid);
                  isWorker = (w = uid)
              in if \<not> isEmployer \<and> \<not> isWorker
                 then ((403, ''Not authorized to update rating for this job'', None), d)
                 else if \<not> truthy (if isEmployer then rating (employerRating j)
                                   else rating (workerRating j))
                 then ((400, ''No existing rating to update'', None), d)
                 else
                   let upd = (\<lambda>old. old\<lparr>rating := Some r,
                                         review := (case rv of None \<Rightarrow> review old
                                                    | Some x \<Rightarrow> Some x),
                                         ratedAt := Some now\<rparr>);
                       j1 = (if isEmployer then j\<lparr>employerRating := upd (employerRating j)\<rparr>
                             else j\<lparr>workerRating := upd (workerRating j)\<rparr>);
                       d1 = save_job j1 d;
                       ok = (200, ''Rating updated successfully'', Some j1)
                   in if isEmployer then
                        (case users d1 w of
                           None \<Rightarrow> (ok, d1)
                         | Some worker \<Rightarrow>
                             let found = rated_jobs (jobs d1) w;
                                 totalRatings = length found;
                                 totalRatingSum = rating_sum found
                             in if totalRatings = 0 then ((500, ''Server error'', None), d1)
                                else
                                  let newAverageRating =
                                        of_int totalRatingSum / of_nat totalRatings
                                  in (ok, d1\<lparr>users := (users d1)(w \<mapsto> worker
                                            \<lparr>averageRating := round1 newAverageRating,
                                             totalReviews := totalRatings\<rparr>)\<rparr>))
                      else (ok, d1)))"

text \<open>\<open>DELETE /api/ratings/:jobId\<close>: the rating sub-record becomes the empty object.\<close>

definition delete_rating :: "db \<Rightarrow> oid \<Rightarrow> oid \<Rightarrow> job reply \<times> db" where
  "delete_rating d uid jobId =
     (case findById (jobs d) jobId of
        None \<Rightarrow> ((404, ''Job not found'', None), d)
      | Some j \<Rightarrow>
         (case selectedWorker j of
            None \<Rightarrow> ((500, ''Server error'', None), d)
          | Some w \<Rightarrow>
              let isEmployer = (employer j = uid);
                  isWorker = (w = uid)
              in if \<not> isEmployer \<and> \<not> isWorker
                 then ((403, ''Not authorized to delete rating for this job'', None), d)
                 else if \<not> truthy (if isEmployer then rating (employerRating j)
                                   else rating (workerRating j))
                 then ((400, ''No rating to delete'', None), d)
                 else
                   let none = \<lparr>rating = None, review = None, ratedAt = None\<rparr>;
                       j1 = (if isEmployer then j\<lparr>employerRating := none\<rparr>
                             else j\<lparr>workerRating := none\<rparr>);
                       d1 = save_job j1 d;
                       ok = (200, ''Rating deleted successfully'', Some j1)
                   in if isEmployer then
                        (case users d1 w of
                           None \<Rightarrow> (ok, d1)
                         | Some worker \<Rightarrow>
                             let found = rated_jobs (jobs d1) w;
                                 totalRatings = length found
                             in (ok, d1\<lparr>users := (users d1)(w \<mapsto> worker
                                       \<lparr>averageRating :=
                                          (if totalRatings > 0
                                           then round1 (of_int (rating_sum found)
                                                        / of_nat totalRatings)
                                           else 0),
                                        totalReviews := totalRatings\<rparr>)\<rparr>))
                      else (ok, d1)))"

section \<open>Requests, runs and the invariants of a job\<close>

text \<open>
  The requests that change a job, each with its parameters and body, and the database
  after one of them and after a list of them, handled one after the other.
\<close>

datatype request =
    Apply oid "string option" "rat option"
  | PutApplication oid oid string
  | DeleteApplication oid
  | CompleteJob oid
  | PutJob oid job_update

fun handle :: "db \<Rightarrow> date \<times> oid \<times> request \<Rightarrow> db" where
  "handle d (now, uid, Apply jobId msg pay) = snd (post_application d now uid jobId msg pay)"
| "handle d (now, uid, PutApplication jobId applicationId action) =
     snd (put_application d now uid jobId applicationId action)"
| "handle d (now, uid, DeleteApplication jobId) = snd (delete_application d uid jobId)"
| "handle d (now, uid, CompleteJob jobId) = snd (complete_job d now uid jobId)"
| "handle d (now, uid, PutJob jobId body) = snd (put_job d uid jobId body)"

definition run :: "db \<Rightarrow> (date \<times> oid \<times> request) list \<Rightarrow> db" where
  "run d rs = foldl handle d rs"

text \<open>The application-mutating requests: apply, accept, reject, withdraw, delete.\<close>

fun application_op :: "date \<times> oid \<times> request \<Rightarrow> bool" where
  "application_op (now, uid, Apply jobId msg pay) = True"
| "application_op (now, uid, PutApplication jobId applicationId action) = True"
| "application_op (now, uid, DeleteApplication jobId) = True"
| "application_op (now, uid, CompleteJob jobId) = False"
| "application_op (now, uid, PutJob jobId body) = False"

text \<open>All the requests above but the job update.\<close>

fun not_job_update :: "date \<times> oid \<times> request \<Rightarrow> bool" where
  "not_job_update (now, uid, PutJob jobId body) = False"
| "not_job_update (now, uid, r) = True"

definition count_ok :: "job \<Rightarrow> bool" where
  "count_ok j = (applicationsCount j = length (applications j))"

definition one_per_worker :: "job \<Rightarrow> bool" where
  "one_per_worker j = distinct (map app_worker (applications j))"

definition worker_selected_ok :: "job \<Rightarrow> bool" where
  "worker_selected_ok j =
     ((selectedWorker j \<noteq> None) = (status j = JInProgress \<or> status j = JCompleted))"

section \<open>Example states\<close>

text \<open>
  A job as account 1 has just posted it, with pay 25, and two accounts without history;
  account 2 has a payment method.
\<close>

definition no_rating :: rating_rec where
  "no_rating = \<lparr>rating = None, review = None, ratedAt = None\<rparr>"

definition job0 :: job where
  "job0 = \<lparr>job_id = 100, title = ''Courier'', companyName = ''Acme'', employer = 1,
           pay_amount = 25, pay_currency = ''USD'', status = JActive, applications = [],
           selectedWorker = None, startedAt = None, completedAt = None,
           workerRating = no_rating, employerRating = no_rating,
           payment_status = PPending, paidAt = None, payment_amount = None,
           transactionId = None, applicationsCount = 0, expiresAt = 1000\<rparr>"

definition account :: "oid \<Rightarrow> user" where
  "account i = \<lparr>user_id = i, wallet_balance = 0, wallet_currency = ''USD'',
                paymentMethods = [\<lparr>pm_id = 9, pm_name = ''Visa''\<rparr>], completedJobs = 0,
                totalEarnings = 0, averageRating = 0, totalReviews = 0\<rparr>"

definition db0 :: db where
  "db0 = \<lparr>jobs = [job0], users = [1 \<mapsto> account 1, 2 \<mapsto> account 2],
          transactions = [], next_id = 500\<rparr>"

text \<open>Account 2 applies with a proposed pay of 30; the application gets the id 500.\<close>

definition db_applied :: db where
  "db_applied = run db0 [(10, 2, Apply 100 None (Some 30))]"

text \<open>Then the employer accepts it, and later completes the job.\<close>

definition db_accepted :: db where
  "db_accepted = run db_applied [(20, 1, PutApplication 100 500 ''accept'')]"

definition db_done :: db where
  "db_done = run db_accepted [(30, 1, CompleteJob 100)]"

text \<open>Or the employer rejects it; or the applicant withdraws it through the PUT route.\<close>

definition db_rejected :: db where
  "db_rejected = run db_applied [(20, 1, PutApplication 100 500 ''reject'')]"

definition db_withdrawn :: db where
  "db_withdrawn = run db_applied [(20, 2, PutApplication 100 500 ''withdraw'')]"

text \<open>
  Account 2 with one completed earning of 250 in the ledger and the cached balance 250.
  It asks to withdraw 50 to its payment method 9; \<open>withdrawal50\<close> is the entry that the
  handler creates and hands to the settlement task, which runs two seconds later.
\<close>

definition db_wallet :: db where
  "db_wallet = \<lparr>jobs = [], users = [2 \<mapsto> (account 2)\<lparr>wallet_balance := 250\<rparr>],
     transactions = [\<lparr>txn_id = 599, txn_user = 2, txn_type = Earned, amount = 250,
       currency = ''USD'', description = ''Courier - Acme'', txn_job = Some 100,
       txn_paymentMethod = None, txn_status = TCompleted, processedAt = None,
       failedAt = None, failureReason = None\<rparr>],
     next_id = 600\<rparr>"

definition withdrawal50 :: transaction where
  "withdrawal50 = \<lparr>txn_id = 600, txn_user = 2, txn_type = Withdrawal, amount = - 50,
     currency = ''USD'', description = ''Withdrawal to Visa'', txn_job = None,
     txn_paymentMethod = Some 9, txn_status = TPending, processedAt = None,
     failedAt = None, failureReason = None\<rparr>"

definition db_withdrawing :: db where
  "db_withdrawing = snd (post_withdraw db_wallet 2 50 (Some 9))"

definition db_settled :: db where
  "db_settled = settle_withdrawal db_withdrawing 2040 withdrawal50"

text \<open>
  Four completed jobs of employer 1 with account 2 as the selected worker, not yet rated,
  and the state after the employer has rated them 1, 1, 2 and 1 in turn.
\<close>

definition done_job :: "oid \<Rightarrow> job" where
  "done_job i = job0\<lparr>job_id := i, status := JCompleted, selectedWorker := Some 2,
                     startedAt := Some 20, completedAt := Some 30\<rparr>"

definition db_four :: db where
  "db_four = \<lparr>jobs = [done_job 101, done_job 102, done_job 103, done_job 104],
              users = [1 \<mapsto> account 1, 2 \<mapsto> account 2], transactions = [], next_id = 500\<rparr>"

definition db_rated3 :: db where
  "db_rated3 = snd (post_rating (snd (post_rating (snd (post_rating db_four
       41 1 101 1 None)) 42 1 102 1 None)) 43 1 103 2 None)"

definition db_rated4 :: db where
  "db_rated4 = snd (post_rating db_rated3 44 1 104 1 None)"

text \<open>
  One completed job that the employer has rated 5 and the worker 2, and the state after
  the employer has changed the rating to 3 through the update route.
\<close>

definition db_both_rated :: db where
  "db_both_rated = snd (post_rating (snd (post_rating
       (db_four\<lparr>jobs := [done_job 101]\<rparr>) 41 1 101 5 None)) 42 2 101 2 None)"

definition db_rating_updated :: db where
  "db_rating_updated = snd (put_rating db_both_rated 43 1 101 3 None)"


section \<open>Lemmas on the database\<close>

lemma findById_id: "findById js i = Some j \<Longrightarrow> job_id j = i"
  by (auto simp: findById_def find_Some_iff)

lemma findById_mem: "findById js i = Some j \<Longrightarrow> j \<in> set js"
  by (auto simp: findById_def find_Some_iff)

lemma findById_map_replace:
  "findById js (job_id j) = Some j0 \<Longrightarrow>
   findById (map (\<lambda>x. if job_id x = job_id j then j else x) js) (job_id j) = Some j"
  by (induction js) (auto simp: findById_def)

lemma findById_save_job:
  "findById (jobs d) (job_id j) = Some j0 \<Longrightarrow> findById (jobs (save_job j d)) (job_id j) = Some j"
  by (simp add: save_job_def findById_map_replace)

lemma jobs_save_job: "x \<in> set (jobs (save_job j d)) \<Longrightarrow> x = j \<or> x \<in> set (jobs d)"
  by (auto simp: save_job_def split: if_splits)

lemma save_job_fields [simp]:
  "users (save_job j d) = users d" "transactions (save_job j d) = transactions d"
  "next_id (save_job j d) = next_id d"
  by (simp_all add: save_job_def)

lemma app_by_id_set_app_status:
  "app_by_id as i = Some a \<Longrightarrow> app_by_id (set_app_status i s as) i = Some (a\<lparr>app_status := s\<rparr>)"
  by (induction as) (auto simp: app_by_id_def)

lemma length_set_app_status [simp]: "length (set_app_status i s as) = length as"
  by (induction as) auto

lemma workers_set_app_status [simp]: "map app_worker (set_app_status i s as) = map app_worker as"
  by (induction as) auto

lemma jobs_createTransaction [simp]: "jobs (snd (createTransaction d data)) = jobs d"
  by (simp add: createTransaction_def save_balance_def Let_def split: option.splits)

section \<open>What one request does to the jobs\<close>

text \<open>
  Every job stored after a request is a job stored before it, or the job that the request
  addressed with some of its fields assigned. The lemmas below say which fields.
\<close>

lemma post_application_jobs:
  assumes "x \<in> set (jobs (snd (post_application d now uid jobId msg pay)))"
  shows "x \<in> set (jobs d) \<or>
         (\<exists>j. j \<in> set (jobs d) \<and> canApply now j uid \<and>
              map app_worker (applications x) = map app_worker (applications j) @ [uid] \<and>
              applicationsCount x = length (applications x) \<and>
              selectedWorker x = selectedWorker j \<and> status x = status j \<and>
              employer x = employer j)"
proof (cases "findById (jobs d) jobId")
  case None
  with assms show ?thesis by (auto simp: post_application_def split: if_splits)
next
  case (Some j)
  then have mem: "j \<in> set (jobs d)" by (rule findById_mem)
  have "x \<in> set (jobs d) \<or>
        canApply now j uid \<and>
        map app_worker (applications x) = map app_worker (applications j) @ [uid] \<and>
        applicationsCount x = length (applications x) \<and>
        selectedWorker x = selectedWorker j \<and> status x = status j \<and> employer x = employer j"
    using assms Some
    by (auto simp: post_application_def job_apply_def Let_def
             split: option.splits if_splits dest!: jobs_save_job)
  with mem show ?thesis by blast
qed

lemma put_application_jobs:
  assumes "x \<in> set (jobs (snd (put_application d now uid jobId applicationId action)))"
  shows "x \<in> set (jobs d) \<or>
         (\<exists>j. j \<in> set (jobs d) \<and>
              map app_worker (applications x) = map app_worker (applications j) \<and>
              applicationsCount x = applicationsCount j \<and> employer x = employer j \<and>
              (selectedWorker x = selectedWorker j \<and> status x = status j \<or>
               selectedWorker x \<noteq> None \<and> status x = JInProgress))"
proof (cases "findById (jobs d) jobId")
  case None
  with assms show ?thesis by (auto simp: put_application_def split: if_splits)
next
  case (Some j)
  then have mem: "j \<in> set (jobs d)" by (rule findById_mem)
  have "x \<in> set (jobs d) \<or>
        map app_worker (applications x) = map app_worker (applications j) \<and>
        applicationsCount x = applicationsCount j \<and> employer x = employer j \<and>
        (selectedWorker x = selectedWorker j \<and> status x = status j \<or>
         selectedWorker x \<noteq> None \<and> status x = JInProgress)"
    using assms Some
    by (auto simp: put_application_def acceptApplication_def Let_def
             split: option.splits if_splits dest!: jobs_save_job)
  with mem show ?thesis by blast
qed

lemma delete_application_jobs:
  assumes "x \<in> set (jobs (snd (delete_application d uid jobId)))"
  shows "x \<in> set (jobs d) \<or>
         (\<exists>j. j \<in> set (jobs d) \<and>
              applications x = filter (\<lambda>a. app_worker a \<noteq> uid) (applications j) \<and>
              applicationsCount x = length (applications x) \<and>
              selectedWorker x = selectedWorker j \<and> status x = status j \<and>
              employer x = employer j)"
proof (cases "findById (jobs d) jobId")
  case None
  with assms show ?thesis by (simp add: delete_application_def)
next
  case (Some j)
  then have mem: "j \<in> set (jobs d)" by (rule findById_mem)
  have "x \<in> set (jobs d) \<or>
        applications x = filter (\<lambda>a. app_worker a \<noteq> uid) (applications j) \<and>
        applicationsCount x = length (applications x) \<and>
        selectedWorker x = selectedWorker j \<and> status x = status j \<and> employer x = employer j"
    using assms Some
    by (auto simp: delete_application_def Let_def
             split: option.splits if_splits dest!: jobs_save_job)
  with mem show ?thesis by blast
qed

lemma complete_job_jobs:
  assumes "x \<in> set (jobs (snd (complete_job d now uid jobId)))"
  shows "x \<in> set (jobs d) \<or>
         (\<exists>j. j \<in> set (jobs d) \<and> status j = JInProgress \<and>
              applications x = applications j \<and> applicationsCount x = applicationsCount j \<and>
              selectedWorker x = selectedWorker j \<and> status x = JCompleted)"
proof (cases "findById (jobs d) jobId")
  case None
  with assms show ?thesis by (simp add: complete_job_def)
next
  case (Some j)
  note j = this
  show ?thesis
  proof (cases "employer j = uid \<and> status j = JInProgress")
    case False
    with assms j show ?thesis by (auto simp: complete_job_def Let_def split: if_splits)
  next
    case True
    define j1 where "j1 = j\<lparr>status := JCompleted, completedAt := Some now\<rparr>"
    define data where "data = \<lparr>d_user = selectedWorker j1, d_type = Earned,
      d_amount = pay_amount j1, d_currency = pay_currency j1,
      d_description = title j1 @ '' - '' @ companyName j1, d_job = Some (job_id j1),
      d_paymentMethod = None, d_status = TCompleted\<rparr>"
    obtain r d2 where ct: "createTransaction (save_job j1 d) data = (r, d2)"
      by (cases "createTransaction (save_job j1 d) data")
    have jobs2: "jobs d2 = jobs (save_job j1 d)"
      using jobs_createTransaction [of "save_job j1 d" data] ct by simp
    have mem: "j \<in> set (jobs d)" using j by (rule findById_mem)
    show ?thesis
    proof (cases r)
      case (Inl e)
      with assms j True ct have "x \<in> set (jobs d2)"
        by (simp add: complete_job_def Let_def j1_def data_def)
      then have "x = j1 \<or> x \<in> set (jobs d)"
        unfolding jobs2 by (rule jobs_save_job)
      with mem True show ?thesis by (auto simp: j1_def)
    next
      case (Inr t)
      define j2 where "j2 = j1\<lparr>payment_status := PPaid, paidAt := Some now,
         payment_amount := Some (pay_amount j1), transactionId := Some (txn_id t)\<rparr>"
      from assms j True ct Inr have "x \<in> set (jobs (save_job j2 d2))"
        by (auto simp: complete_job_def Let_def j1_def data_def j2_def save_job_def
                 split: option.splits)
      then have "x = j2 \<or> x \<in> set (jobs d2)" by (rule jobs_save_job)
      then have "x = j2 \<or> x = j1 \<or> x \<in> set (jobs d)"
        unfolding jobs2 by (auto dest: jobs_save_job)
      with mem True show ?thesis by (auto simp: j1_def j2_def)
    qed
  qed
qed

section \<open>The invariants of a job\<close>

lemma handle_count_ok:
  assumes "list_all count_ok (jobs d)" and "application_op r"
  shows "list_all count_ok (jobs (handle d r))"
proof -
  obtain now uid q where r: "r = (now, uid, q)" by (cases r)
  have inv: "\<And>j. j \<in> set (jobs d) \<Longrightarrow> applicationsCount j = length (applications j)"
    using assms(1) by (simp add: list_all_iff count_ok_def)
  show ?thesis
  proof (cases q)
    case (Apply jobId msg pay)
    then show ?thesis using r inv
      by (auto simp: list_all_iff count_ok_def dest!: post_application_jobs)
  next
    case (PutApplication jobId applicationId action)
    then show ?thesis using r inv
      by (auto simp: list_all_iff count_ok_def dest!: put_application_jobs map_eq_imp_length_eq)
  next
    case (DeleteApplication jobId)
    then show ?thesis using r inv
      by (auto simp: list_all_iff count_ok_def dest!: delete_application_jobs)
  next
    case (CompleteJob jobId)
    then show ?thesis using r assms(2) by simp
  next
    case (PutJob jobId body)
    then show ?thesis using r assms(2) by simp
  qed
qed

text \<open>
  Claim C9. For every job, \<open>applicationsCount\<close> equals the length of the applications
  list after every application-mutating operation (apply, accept, reject, withdraw,
  delete-withdraw): if it holds for the stored jobs, it holds after any list of such
  requests, by any accounts at any times. A job as posted has count 0 and no application.
\<close>

theorem applicationsCount_invariant:
  assumes "list_all count_ok (jobs d)" and "list_all application_op rs"
  shows "list_all count_ok (jobs (run d rs))"
  using assms unfolding run_def
proof (induction rs arbitrary: d)
  case Nil
  then show ?case by simp
next
  case (Cons r rs)
  then show ?case by (simp add: handle_count_ok)
qed

lemma worker_selected_ok_same:
  "worker_selected_ok j \<Longrightarrow> selectedWorker x = selectedWorker j \<Longrightarrow> status x = status j \<Longrightarrow>
   worker_selected_ok x"
  by (simp add: worker_selected_ok_def)

lemma worker_selected_ok_started:
  "selectedWorker x \<noteq> None \<Longrightarrow> status x = JInProgress \<Longrightarrow> worker_selected_ok x"
  by (simp add: worker_selected_ok_def)

lemma worker_selected_ok_completed:
  "worker_selected_ok j \<Longrightarrow> status j = JInProgress \<Longrightarrow> selectedWorker x = selectedWorker j \<Longrightarrow>
   status x = JCompleted \<Longrightarrow> worker_selected_ok x"
  by (simp add: worker_selected_ok_def)

lemma handle_worker_selected_ok:
  assumes "list_all worker_selected_ok (jobs d)" and "not_job_update r"
  shows "list_all worker_selected_ok (jobs (handle d r))"
proof -
  obtain now uid q where r: "r = (now, uid, q)" by (cases r)
  have inv: "\<And>j. j \<in> set (jobs d) \<Longrightarrow> worker_selected_ok j"
    using assms(1) by (simp add: list_all_iff)
  show ?thesis
  proof (cases q)
    case (Apply jobId msg pay)
    then show ?thesis using r inv
      by (auto simp: list_all_iff dest!: post_application_jobs
               intro: worker_selected_ok_same)
  next
    case (PutApplication jobId applicationId action)
    then show ?thesis using r inv
      by (auto simp: list_all_iff dest!: put_application_jobs
               intro: worker_selected_ok_same worker_selected_ok_started)
  next
    case (DeleteApplication jobId)
    then show ?thesis using r inv
      by (auto simp: list_all_iff dest!: delete_application_jobs
               intro: worker_selected_ok_same)
  next
    case (CompleteJob jobId)
    then show ?thesis using r inv
      by (auto simp: list_all_iff dest!: complete_job_jobs
               intro: worker_selected_ok_completed)
  next
    case (PutJob jobId body)
    then show ?thesis using r assms(2) by simp
  qed
qed

text \<open>
  Claim C4, amended. For every job reachable through apply, accept, reject, withdraw,
  delete-withdraw and complete-job from jobs where it holds (a job as posted is active
  with no selected worker), \<open>selectedWorker\<close> is set if and only if the status is
  \<open>in_progress\<close> or \<open>completed\<close>. The job update is left out: it writes the status and
  the selected worker that the request body names.
\<close>

theorem selectedWorker_invariant:
  assumes "list_all worker_selected_ok (jobs d)" and "list_all not_job_update rs"
  shows "list_all worker_selected_ok (jobs (run d rs))"
  using assms unfolding run_def
proof (induction rs arbitrary: d)
  case Nil
  then show ?case by simp
next
  case (Cons r rs)
  then show ?case by (simp add: handle_worker_selected_ok)
qed


lemmas example_defs =
  db_applied_def db_accepted_def db_done_def db_rejected_def db_withdrawn_def
  run_def db0_def job0_def account_def no_rating_def

lemmas route_defs =
  post_application_def put_application_def delete_application_def complete_job_def
  put_job_def apply_update_def valid_apply_body_def findById_def canApply_def isExpired_def
  job_apply_def save_job_def app_by_id_def acceptApplication_def createTransaction_def
  save_balance_def getUserBalance_def Let_def

theorem applicationsCount_invariant_witness:
  "list_all count_ok (jobs db0) \<and>
   list_all application_op
     [(10, 2, Apply 100 None (Some 30)), (11, 3, Apply 100 (Some ''hello'') None),
      (20, 1, PutApplication 100 500 ''reject''), (21, 3, DeleteApplication 100),
      (22, 1, PutApplication 100 500 ''accept''), (23, 2, PutApplication 100 500 ''withdraw'')] \<and>
   list_all count_ok (jobs (run db0
     [(10, 2, Apply 100 None (Some 30)), (11, 3, Apply 100 (Some ''hello'') None),
      (20, 1, PutApplication 100 500 ''reject''), (21, 3, DeleteApplication 100),
      (22, 1, PutApplication 100 500 ''accept''), (23, 2, PutApplication 100 500 ''withdraw'')]))"
proof -
  have h1: "list_all count_ok (jobs db0)"
    by (simp add: db0_def job0_def count_ok_def)
  have h2: "list_all application_op
     [(10, 2, Apply 100 None (Some 30)), (11, 3, Apply 100 (Some ''hello'') None),
      (20, 1, PutApplication 100 500 ''reject''), (21, 3, DeleteApplication 100),
      (22, 1, PutApplication 100 500 ''accept''), (23, 2, PutApplication 100 500 ''withdraw'')]"
    by simp
  show ?thesis using h1 h2 applicationsCount_invariant [OF h1 h2] by simp
qed

theorem selectedWorker_invariant_witness:
  "list_all worker_selected_ok (jobs db0) \<and>
   list_all not_job_update
     [(10, 2, Apply 100 None (Some 30)), (20, 1, PutApplication 100 500 ''accept''),
      (30, 1, CompleteJob 100)] \<and>
   list_all worker_selected_ok (jobs (run db0
     [(10, 2, Apply 100 None (Some 30)), (20, 1, PutApplication 100 500 ''accept''),
      (30, 1, CompleteJob 100)]))"
proof -
  have h1: "list_all worker_selected_ok (jobs db0)"
    by (simp add: db0_def job0_def worker_selected_ok_def)
  have h2: "list_all not_job_update
     [(10, 2, Apply 100 None (Some 30)), (20, 1, PutApplication 100 500 ''accept''),
      (30, 1, CompleteJob 100)]"
    by simp
  show ?thesis using h1 h2 selectedWorker_invariant [OF h1 h2] by simp
qed

text \<open>
  The claim as stated counts the job update among the lifecycle operations. On the job as
  posted, the employer's update with the body \<open>{status: 'in_progress'}\<close> leaves a job in
  progress with no selected worker.
\<close>

theorem job_update_breaks_selectedWorker:
  "list_all worker_selected_ok (jobs db0) \<and>
   map status (jobs (run db0 [(10, 1, PutJob 100
      \<lparr>upd_pay_amount = None, upd_status = Some JInProgress, upd_selectedWorker = None,
       upd_applicationsCount = None\<rparr>)])) = [JInProgress] \<and>
   map selectedWorker (jobs (run db0 [(10, 1, PutJob 100
      \<lparr>upd_pay_amount = None, upd_status = Some JInProgress, upd_selectedWorker = None,
       upd_applicationsCount = None\<rparr>)])) = [None] \<and>
   \<not> list_all worker_selected_ok (jobs (run db0 [(10, 1, PutJob 100
      \<lparr>upd_pay_amount = None, upd_status = Some JInProgress, upd_selectedWorker = None,
       upd_applicationsCount = None\<rparr>)]))"
  by (simp add: example_defs route_defs worker_selected_ok_def)

section \<open>Accepting an application\<close>

lemma put_accept_success:
  assumes "findById (jobs d) jobId = Some j" and "app_by_id (applications j) aid = Some a"
    and "employer j = uid" and "status j = JActive"
  shows "put_application d now uid jobId aid ''accept'' =
         ((200, ''Application accepted successfully'',
           Some (j\<lparr>applications := set_app_status aid AAccepted (applications j),
                   selectedWorker := Some (app_worker a), status := JInProgress,
                   startedAt := Some now\<rparr>)),
          save_job (j\<lparr>applications := set_app_status aid AAccepted (applications j),
                   selectedWorker := Some (app_worker a), status := JInProgress,
                   startedAt := Some now\<rparr>)
            (save_job (j\<lparr>applications := set_app_status aid AAccepted (applications j),
                   selectedWorker := Some (app_worker a), status := JInProgress\<rparr>) d))"
  using assms by (simp add: put_application_def acceptApplication_def Let_def)

lemma findById_save_job_twice:
  assumes "findById (jobs d) i = Some j0" and "job_id j1 = i" and "job_id j2 = i"
  shows "findById (jobs (save_job j2 (save_job j1 d))) i = Some j2"
proof -
  have "findById (jobs (save_job j1 d)) (job_id j1) = Some j1"
    using assms(1,2) findById_save_job [of d j1 j0] by simp
  then have "findById (jobs (save_job j2 (save_job j1 d))) (job_id j2) = Some j2"
    using assms(2,3) findById_save_job [of "save_job j1 d" j2 j1] by simp
  then show ?thesis using assms(3) by simp
qed

text \<open>
  Claim C2, amended. Accepting an application succeeds exactly when the job exists, the
  target application exists in it, the actor is the job's employer and the job's status is
  \<open>active\<close>; the status of the application is not looked at. On success the target
  application's status becomes \<open>accepted\<close>, \<open>selectedWorker\<close> is that application's
  worker, \<open>completion.startedAt\<close> is now and the job's status becomes \<open>in_progress\<close>.
\<close>

theorem accept_application:
  "(fst (fst (put_application d now uid jobId aid ''accept'')) = 200) =
     (\<exists>j a. findById (jobs d) jobId = Some j \<and> app_by_id (applications j) aid = Some a \<and>
            employer j = uid \<and> status j = JActive) \<and>
   (\<forall>j a. findById (jobs d) jobId = Some j \<and> app_by_id (applications j) aid = Some a \<and>
          employer j = uid \<and> status j = JActive \<longrightarrow>
      (\<exists>j'. findById (jobs (snd (put_application d now uid jobId aid ''accept''))) jobId = Some j' \<and>
            app_by_id (applications j') aid = Some (a\<lparr>app_status := AAccepted\<rparr>) \<and>
            selectedWorker j' = Some (app_worker a) \<and>
            startedAt j' = Some now \<and>
            status j' = JInProgress))"
proof (intro conjI allI impI)
  show "(fst (fst (put_application d now uid jobId aid ''accept'')) = 200) =
     (\<exists>j a. findById (jobs d) jobId = Some j \<and> app_by_id (applications j) aid = Some a \<and>
            employer j = uid \<and> status j = JActive)"
    by (auto simp: put_application_def acceptApplication_def Let_def split: option.splits)
next
  fix j a
  assume h: "findById (jobs d) jobId = Some j \<and> app_by_id (applications j) aid = Some a \<and>
          employer j = uid \<and> status j = JActive"
  define j1 where "j1 = j\<lparr>applications := set_app_status aid AAccepted (applications j),
                   selectedWorker := Some (app_worker a), status := JInProgress\<rparr>"
  define j2 where "j2 = j1\<lparr>startedAt := Some now\<rparr>"
  have id: "job_id j = jobId" using h findById_id by blast
  have res: "snd (put_application d now uid jobId aid ''accept'') = save_job j2 (save_job j1 d)"
    using h by (simp add: put_accept_success j1_def j2_def)
  have "findById (jobs (save_job j2 (save_job j1 d))) jobId = Some j2"
    using h id by (intro findById_save_job_twice [of d jobId j]) (simp_all add: j1_def j2_def)
  moreover have "app_by_id (applications j2) aid = Some (a\<lparr>app_status := AAccepted\<rparr>)"
    using h by (simp add: j1_def j2_def app_by_id_set_app_status)
  ultimately show "\<exists>j'. findById (jobs (snd (put_application d now uid jobId aid ''accept''))) jobId = Some j' \<and>
            app_by_id (applications j') aid = Some (a\<lparr>app_status := AAccepted\<rparr>) \<and>
            selectedWorker j' = Some (app_worker a) \<and>
            startedAt j' = Some now \<and>
            status j' = JInProgress"
    unfolding res by (intro exI [of _ j2]) (simp add: j1_def j2_def)
qed

theorem accept_application_witness:
  "fst (fst (put_application db_applied 20 1 100 500 ''accept'')) = 200 \<and>
   map status (jobs db_applied) = [JActive] \<and>
   map employer (jobs db_applied) = [1] \<and>
   map (map app_status) (map applications (jobs db_applied)) = [[APending]] \<and>
   map (map app_status) (map applications
     (jobs (snd (put_application db_applied 20 1 100 500 ''accept'')))) = [[AAccepted]] \<and>
   map selectedWorker (jobs (snd (put_application db_applied 20 1 100 500 ''accept''))) = [Some 2] \<and>
   map startedAt (jobs (snd (put_application db_applied 20 1 100 500 ''accept''))) = [Some 20] \<and>
   map status (jobs (snd (put_application db_applied 20 1 100 500 ''accept''))) = [JInProgress]"
  using accept_application [where d = db_applied and now = 20 and uid = 1 and jobId = 100 and aid = 500]
  by (simp add: example_defs route_defs)

text \<open>
  The claim as stated wants the target application to be pending. After account 2 has
  applied and the employer has rejected the application, accepting it succeeds all the same.
\<close>

theorem accept_rejected_application:
  "map status (jobs db_rejected) = [JActive] \<and>
   map (map app_id) (map applications (jobs db_rejected)) = [[500]] \<and>
   map (map app_status) (map applications (jobs db_rejected)) = [[ARejected]] \<and>
   fst (fst (put_application db_rejected 30 1 100 500 ''accept'')) = 200 \<and>
   map (map app_status) (map applications
     (jobs (snd (put_application db_rejected 30 1 100 500 ''accept'')))) = [[AAccepted]] \<and>
   map status (jobs (snd (put_application db_rejected 30 1 100 500 ''accept''))) = [JInProgress]"
  by (simp add: example_defs route_defs)

section \<open>Applying once per worker, and withdrawing\<close>

lemma find_worker_None: "(find (\<lambda>a. app_worker a = uid) as = None) = (uid \<notin> set (map app_worker as))"
  by (auto simp: find_None_iff)

lemma canApply_new_worker: "canApply now j uid \<Longrightarrow> uid \<notin> set (map app_worker (applications j))"
proof -
  assume "canApply now j uid"
  then have "find (\<lambda>a. app_worker a = uid) (applications j) = None"
    by (simp add: canApply_def split: if_splits option.splits)
  then show ?thesis unfolding find_worker_None .
qed

lemma one_per_worker_appended:
  "one_per_worker j \<Longrightarrow> canApply now j uid \<Longrightarrow>
   map app_worker (applications x) = map app_worker (applications j) @ [uid] \<Longrightarrow> one_per_worker x"
  using canApply_new_worker [of now j uid] by (simp add: one_per_worker_def)

lemma one_per_worker_same:
  "one_per_worker j \<Longrightarrow> map app_worker (applications x) = map app_worker (applications j) \<Longrightarrow>
   one_per_worker x"
  by (simp add: one_per_worker_def)

lemma one_per_worker_filtered:
  "one_per_worker j \<Longrightarrow> applications x = filter P (applications j) \<Longrightarrow> one_per_worker x"
  by (simp add: one_per_worker_def distinct_map_filter)

lemma handle_one_per_worker:
  assumes "list_all one_per_worker (jobs d)" and "application_op r"
  shows "list_all one_per_worker (jobs (handle d r))"
proof -
  obtain now uid q where r: "r = (now, uid, q)" by (cases r)
  have inv: "\<And>j. j \<in> set (jobs d) \<Longrightarrow> one_per_worker j"
    using assms(1) by (simp add: list_all_iff)
  show ?thesis
  proof (cases q)
    case (Apply jobId msg pay)
    then show ?thesis using r inv
      by (auto simp: list_all_iff dest!: post_application_jobs intro: one_per_worker_appended)
  next
    case (PutApplication jobId applicationId action)
    then show ?thesis using r inv
      by (auto simp: list_all_iff dest!: put_application_jobs intro: one_per_worker_same)
  next
    case (DeleteApplication jobId)
    then show ?thesis using r inv
      by (auto simp: list_all_iff dest!: delete_application_jobs intro: one_per_worker_filtered)
  next
    case (CompleteJob jobId)
    then show ?thesis using r assms(2) by simp
  next
    case (PutJob jobId body)
    then show ?thesis using r assms(2) by simp
  qed
qed

lemma run_one_per_worker:
  assumes "list_all one_per_worker (jobs d)" and "list_all application_op rs"
  shows "list_all one_per_worker (jobs (run d rs))"
  using assms unfolding run_def
proof (induction rs arbitrary: d)
  case Nil
  then show ?case by simp
next
  case (Cons r rs)
  then show ?case by (simp add: handle_one_per_worker)
qed

lemma apply_refused:
  assumes "findById (jobs d) jobId = Some j" and "valid_apply_body msg pay"
    and "uid \<in> set (map app_worker (applications j))"
  shows "post_application d now uid jobId msg pay = ((400, ''Cannot apply for this job'', None), d)"
proof -
  have "\<not> canApply now j uid"
    using assms(3) canApply_new_worker [of now j uid] by blast
  then show ?thesis
    using assms(1,2) by (simp add: post_application_def)
qed

lemma apply_accepted:
  assumes "findById (jobs d) jobId = Some j" and "valid_apply_body msg pay"
    and "uid \<notin> set (map app_worker (applications j))"
    and "status j = JActive" and "now \<le> expiresAt j" and "employer j \<noteq> uid"
  shows "fst (fst (post_application d now uid jobId msg pay)) = 201 \<and>
         (\<exists>j'. findById (jobs (snd (post_application d now uid jobId msg pay))) jobId = Some j' \<and>
               applications j' = applications j @
                 [\<lparr>app_id = next_id d, app_worker = uid, app_status = APending,
                   appliedAt = now, app_message = msg, proposedPay = pay\<rparr>])"
proof -
  have "find (\<lambda>a. app_worker a = uid) (applications j) = None"
    using assms(3) by (simp add: find_worker_None)
  then have can: "canApply now j uid"
    using assms(4,5,6) by (simp add: canApply_def isExpired_def)
  define j2 where "j2 = j\<lparr>applications := applications j @
      [\<lparr>app_id = next_id d, app_worker = uid, app_status = APending,
        appliedAt = now, app_message = msg, proposedPay = pay\<rparr>],
      applicationsCount := Suc (length (applications j))\<rparr>"
  have res: "post_application d now uid jobId msg pay =
      ((201, ''Application submitted successfully'', Some j2),
       save_job j2 (d\<lparr>next_id := Suc (next_id d)\<rparr>))"
    using assms(1,2) can by (simp add: post_application_def job_apply_def Let_def j2_def)
  have id: "job_id j2 = jobId"
    using findById_id [OF assms(1)] by (simp add: j2_def)
  have "findById (jobs (d\<lparr>next_id := Suc (next_id d)\<rparr>)) (job_id j2) = Some j"
    using assms(1) id by simp
  then have "findById (jobs (save_job j2 (d\<lparr>next_id := Suc (next_id d)\<rparr>))) (job_id j2) = Some j2"
    by (rule findById_save_job)
  then show ?thesis
    unfolding res using id by (simp add: j2_def)
qed

text \<open>
  Claim C3, amended. For a request that passes validation on an existing job: an account
  that has any application in the job's list, whatever its status (withdrawn too), is
  refused with 400 and nothing changes; an account with no application in the list, on an
  active job that is not past \<open>expiresAt\<close> and is not its own, is accepted and a
  pending application is appended; and every list of application-mutating requests keeps
  every job's list free of two applications by one worker, so that at most one
  application, withdrawn or not, exists per job and worker.
\<close>

theorem apply_once_per_worker:
  assumes "findById (jobs d) jobId = Some j" and "valid_apply_body msg pay"
  shows "(uid \<in> set (map app_worker (applications j)) \<longrightarrow>
            post_application d now uid jobId msg pay =
              ((400, ''Cannot apply for this job'', None), d)) \<and>
         (uid \<notin> set (map app_worker (applications j)) \<and> status j = JActive \<and>
          now \<le> expiresAt j \<and> employer j \<noteq> uid \<longrightarrow>
            fst (fst (post_application d now uid jobId msg pay)) = 201 \<and>
            (\<exists>j'. findById (jobs (snd (post_application d now uid jobId msg pay))) jobId = Some j' \<and>
                  applications j' = applications j @
                    [\<lparr>app_id = next_id d, app_worker = uid, app_status = APending,
                      appliedAt = now, app_message = msg, proposedPay = pay\<rparr>])) \<and>
         (list_all one_per_worker (jobs d) \<and> list_all application_op rs \<longrightarrow>
            list_all one_per_worker (jobs (run d rs)))"
  using apply_refused [OF assms] apply_accepted [OF assms] run_one_per_worker [of d rs]
  by blast

theorem apply_once_per_worker_witness:
  "findById (jobs db_withdrawn) 100 = Some (hd (jobs db_withdrawn)) \<and>
   valid_apply_body None (Some 30) \<and>
   map app_worker (applications (hd (jobs db_withdrawn))) = [2] \<and>
   map app_status (applications (hd (jobs db_withdrawn))) = [AWithdrawn] \<and>
   list_all one_per_worker (jobs db_withdrawn) \<and>
   post_application db_withdrawn 30 2 100 None (Some 30) =
     ((400, ''Cannot apply for this job'', None), db_withdrawn) \<and>
   fst (fst (post_application db_withdrawn 30 3 100 None (Some 30))) = 201 \<and>
   map (map app_worker) (map applications
     (jobs (snd (post_application db_withdrawn 30 3 100 None (Some 30))))) = [[2, 3]]"
proof -
  have h1: "findById (jobs db_withdrawn) 100 = Some (hd (jobs db_withdrawn))"
    by (simp add: example_defs route_defs)
  have h2: "valid_apply_body None (Some 30)"
    by (simp add: valid_apply_body_def)
  have w: "map app_worker (applications (hd (jobs db_withdrawn))) = [2]"
    by (simp add: example_defs route_defs)
  show ?thesis
    using h1 h2 w apply_once_per_worker [OF h1 h2, where uid = 2 and now = 30]
    by (simp add: example_defs route_defs one_per_worker_def)
qed

text \<open>
  The claim as stated lets a worker apply again whose only application has status
  \<open>withdrawn\<close>. After account 2 has applied and withdrawn through the PUT route, on the
  job still active and not expired, \<open>canApply\<close> is false and the request is refused.
\<close>

theorem withdrawn_application_blocks_apply:
  "map status (jobs db_withdrawn) = [JActive] \<and>
   map expiresAt (jobs db_withdrawn) = [1000] \<and>
   map employer (jobs db_withdrawn) = [1] \<and>
   map (map app_worker) (map applications (jobs db_withdrawn)) = [[2]] \<and>
   map (map app_status) (map applications (jobs db_withdrawn)) = [[AWithdrawn]] \<and>
   \<not> canApply 30 (hd (jobs db_withdrawn)) 2 \<and>
   post_application db_withdrawn 30 2 100 None (Some 30) =
     ((400, ''Cannot apply for this job'', None), db_withdrawn)"
  by (simp add: example_defs route_defs)

text \<open>
  On the PUT route a withdrawal by an account that does not own the application is
  answered with 403 and changes nothing.
\<close>

lemma put_withdraw_not_owner:
  assumes "findById (jobs d) jobId = Some j" and "app_by_id (applications j) aid = Some a"
    and "app_worker a \<noteq> uid"
  shows "put_application d now uid jobId aid ''withdraw'' =
         ((403, ''Only applicant can withdraw their application'', None), d)"
  using assms by (simp add: put_application_def)

text \<open>
  Claim C7 at a failing input. The application of account 2 has been accepted. The PUT
  route with action \<open>withdraw\<close>, by its owner, answers 200 and sets the status to
  \<open>withdrawn\<close>, while the job stays in progress with account 2 selected; the claim wants
  a state conflict, which is what the DELETE route answers in the same state.
\<close>

theorem put_withdraw_accepted_application:
  "map status (jobs db_accepted) = [JInProgress] \<and>
   map (map app_status) (map applications (jobs db_accepted)) = [[AAccepted]] \<and>
   fst (fst (put_application db_accepted 40 2 100 500 ''withdraw'')) = 200 \<and>
   map (map app_status) (map applications
     (jobs (snd (put_application db_accepted 40 2 100 500 ''withdraw'')))) = [[AWithdrawn]] \<and>
   map selectedWorker (jobs (snd (put_application db_accepted 40 2 100 500 ''withdraw''))) = [Some 2] \<and>
   map status (jobs (snd (put_application db_accepted 40 2 100 500 ''withdraw''))) = [JInProgress] \<and>
   delete_application db_accepted 2 100 =
     ((400, ''Cannot withdraw application that is not pending'', None), db_accepted)"
  by (simp add: example_defs route_defs)

section \<open>The two withdrawal endpoints\<close>

lemma filter_other_worker:
  "distinct (map f xs) \<Longrightarrow> u \<in> set (map f xs) \<Longrightarrow>
   Suc (length (filter (\<lambda>a. f a \<noteq> u) xs)) = length xs"
proof (induction xs)
  case Nil
  then show ?case by simp
next
  case (Cons x xs)
  show ?case
  proof (cases "f x = u")
    case True
    with Cons.prems have "u \<notin> f ` set xs" by auto
    then have "filter (\<lambda>a. f a \<noteq> u) xs = xs" by (auto simp: filter_id_conv)
    with True show ?thesis by simp
  next
    case False
    with Cons show ?thesis by auto
  qed
qed

lemma find_worker_Some:
  "find (\<lambda>a. app_worker a = uid) as = Some a \<Longrightarrow> uid \<in> set (map app_worker as)"
  by (auto simp: find_Some_iff)

lemma delete_application_success:
  assumes "findById (jobs d) jobId = Some j"
    and "find (\<lambda>a. app_worker a = uid) (applications j) = Some a" and "app_status a = APending"
  shows "delete_application d uid jobId =
         ((200, ''Application withdrawn successfully'', None),
          save_job (j\<lparr>applications := filter (\<lambda>a. app_worker a \<noteq> uid) (applications j),
                    applicationsCount :=
                      length (filter (\<lambda>a. app_worker a \<noteq> uid) (applications j))\<rparr>) d)"
  using assms by (simp add: delete_application_def Let_def)

lemma put_withdraw_success:
  assumes "findById (jobs d) jobId = Some j" and "app_by_id (applications j) aid = Some a"
    and "app_worker a = uid"
  shows "put_application d now uid jobId aid ''withdraw'' =
         ((200, ''Application withdrawn successfully'',
           Some (j\<lparr>applications := set_app_status aid AWithdrawn (applications j)\<rparr>)),
          save_job (j\<lparr>applications := set_app_status aid AWithdrawn (applications j)\<rparr>) d)"
  using assms by (simp add: put_application_def Let_def)

lemma app_by_id_worker:
  "app_by_id as i = Some a \<Longrightarrow> app_worker a \<in> set (map app_worker as)"
  by (auto simp: app_by_id_def find_Some_iff)

lemma delete_withdraw_effect:
  assumes "findById (jobs d) jobId = Some j"
    and "find (\<lambda>a. app_worker a = uid) (applications j) = Some a" and "app_status a = APending"
  shows "fst (fst (delete_application d uid jobId)) = 200 \<and>
         (\<exists>j'. findById (jobs (snd (delete_application d uid jobId))) jobId = Some j' \<and>
               uid \<notin> set (map app_worker (applications j')) \<and>
               applicationsCount j' = length (applications j') \<and>
               (count_ok j \<and> one_per_worker j \<longrightarrow>
                  Suc (applicationsCount j') = applicationsCount j) \<and>
               (status j = JActive \<and> later \<le> expiresAt j \<and> employer j \<noteq> uid \<longrightarrow>
                  canApply later j' uid))"
proof -
  define j2 where "j2 = j\<lparr>applications := filter (\<lambda>a. app_worker a \<noteq> uid) (applications j),
      applicationsCount := length (filter (\<lambda>a. app_worker a \<noteq> uid) (applications j))\<rparr>"
  have id: "job_id j = jobId" using assms(1) by (rule findById_id)
  have res: "delete_application d uid jobId =
      ((200, ''Application withdrawn successfully'', None), save_job j2 d)"
    using assms by (simp add: delete_application_success j2_def)
  have "findById (jobs d) (job_id j2) = Some j" using assms(1) id by (simp add: j2_def)
  then have "findById (jobs (save_job j2 d)) (job_id j2) = Some j2" by (rule findById_save_job)
  then have found: "findById (jobs (save_job j2 d)) jobId = Some j2" using id by (simp add: j2_def)
  have gone: "uid \<notin> set (map app_worker (applications j2))" by (auto simp: j2_def)
  have cnt: "applicationsCount j2 = length (applications j2)" by (simp add: j2_def)
  have dec: "count_ok j \<and> one_per_worker j \<longrightarrow> Suc (applicationsCount j2) = applicationsCount j"
    using filter_other_worker [of app_worker "applications j" uid] find_worker_Some [OF assms(2)]
    by (simp add: j2_def count_ok_def one_per_worker_def)
  have "find (\<lambda>a. app_worker a = uid) (applications j2) = None"
    using gone unfolding find_worker_None .
  then have again: "status j = JActive \<and> later \<le> expiresAt j \<and> employer j \<noteq> uid \<longrightarrow>
      canApply later j2 uid"
    by (simp add: canApply_def isExpired_def j2_def)
  show ?thesis
    unfolding res using found gone cnt dec again by simp
qed

lemma put_withdraw_effect:
  assumes "findById (jobs d) jobId = Some j" and "app_by_id (applications j) aid = Some a"
    and "app_worker a = uid"
  shows "fst (fst (put_application d now uid jobId aid ''withdraw'')) = 200 \<and>
         (\<exists>j'. findById (jobs (snd (put_application d now uid jobId aid ''withdraw''))) jobId
                 = Some j' \<and>
               app_by_id (applications j') aid = Some (a\<lparr>app_status := AWithdrawn\<rparr>) \<and>
               length (applications j') = length (applications j) \<and>
               applicationsCount j' = applicationsCount j \<and>
               \<not> canApply later j' uid)"
proof -
  define j1 where "j1 = j\<lparr>applications := set_app_status aid AWithdrawn (applications j)\<rparr>"
  have id: "job_id j = jobId" using assms(1) by (rule findById_id)
  have res: "put_application d now uid jobId aid ''withdraw'' =
      ((200, ''Application withdrawn successfully'', Some j1), save_job j1 d)"
    using assms by (simp add: put_withdraw_success j1_def)
  have "findById (jobs d) (job_id j1) = Some j" using assms(1) id by (simp add: j1_def)
  then have "findById (jobs (save_job j1 d)) (job_id j1) = Some j1" by (rule findById_save_job)
  then have found: "findById (jobs (save_job j1 d)) jobId = Some j1" using id by (simp add: j1_def)
  have kept: "app_by_id (applications j1) aid = Some (a\<lparr>app_status := AWithdrawn\<rparr>)"
    using assms(2) by (simp add: j1_def app_by_id_set_app_status)
  have "uid \<in> set (map app_worker (applications j1))"
    using app_by_id_worker [OF kept] assms(3) by simp
  then have blocked: "\<not> canApply later j1 uid"
    using canApply_new_worker [of later j1 uid] by blast
  show ?thesis
    unfolding res using found kept blocked by (simp add: j1_def)
qed

text \<open>
  Claim C10. On an existing job, a DELETE by an account whose application (the first one
  of that account in the list) is pending succeeds and leaves no application of that
  account in the list; the count is the new length, one less than before when the count
  was right and no worker had two applications; and \<open>canApply\<close> is true for that account
  afterwards while the job is active and not expired (the account is not the employer,
  whom \<open>canApply\<close> never lets apply). A PUT with action \<open>withdraw\<close> by the owner of the
  application succeeds, keeps the sub-record with status \<open>withdrawn\<close>, leaves length and
  count as they were, and \<open>canApply\<close> is false for that account afterwards.
\<close>

theorem withdrawal_endpoints_differ:
  assumes "findById (jobs d) jobId = Some j"
  shows "(\<forall>a. find (\<lambda>a. app_worker a = uid) (applications j) = Some a \<and> app_status a = APending \<longrightarrow>
            fst (fst (delete_application d uid jobId)) = 200 \<and>
            (\<exists>j'. findById (jobs (snd (delete_application d uid jobId))) jobId = Some j' \<and>
                  uid \<notin> set (map app_worker (applications j')) \<and>
                  applicationsCount j' = length (applications j') \<and>
                  (count_ok j \<and> one_per_worker j \<longrightarrow>
                     Suc (applicationsCount j') = applicationsCount j) \<and>
                  (status j = JActive \<and> later \<le> expiresAt j \<and> employer j \<noteq> uid \<longrightarrow>
                     canApply later j' uid))) \<and>
         (\<forall>a. app_by_id (applications j) aid = Some a \<and> app_worker a = uid \<longrightarrow>
            fst (fst (put_application d now uid jobId aid ''withdraw'')) = 200 \<and>
            (\<exists>j'. findById (jobs (snd (put_application d now uid jobId aid ''withdraw''))) jobId
                    = Some j' \<and>
                  app_by_id (applications j') aid = Some (a\<lparr>app_status := AWithdrawn\<rparr>) \<and>
                  length (applications j') = length (applications j) \<and>
                  applicationsCount j' = applicationsCount j \<and>
                  \<not> canApply later j' uid))"
proof (rule conjI)
  show "\<forall>a. find (\<lambda>a. app_worker a = uid) (applications j) = Some a \<and> app_status a = APending \<longrightarrow>
            fst (fst (delete_application d uid jobId)) = 200 \<and>
            (\<exists>j'. findById (jobs (snd (delete_application d uid jobId))) jobId = Some j' \<and>
                  uid \<notin> set (map app_worker (applications j')) \<and>
                  applicationsCount j' = length (applications j') \<and>
                  (count_ok j \<and> one_per_worker j \<longrightarrow>
                     Suc (applicationsCount j') = applicationsCount j) \<and>
                  (status j = JActive \<and> later \<le> expiresAt j \<and> employer j \<noteq> uid \<longrightarrow>
                     canApply later j' uid))"
    using delete_withdraw_effect [OF assms, where uid = uid and later = later] by blast
  show "\<forall>a. app_by_id (applications j) aid = Some a \<and> app_worker a = uid \<longrightarrow>
            fst (fst (put_application d now uid jobId aid ''withdraw'')) = 200 \<and>
            (\<exists>j'. findById (jobs (snd (put_application d now uid jobId aid ''withdraw''))) jobId
                    = Some j' \<and>
                  app_by_id (applications j') aid = Some (a\<lparr>app_status := AWithdrawn\<rparr>) \<and>
                  length (applications j') = length (applications j) \<and>
                  applicationsCount j' = applicationsCount j \<and>
                  \<not> canApply later j' uid)"
    using put_withdraw_effect [OF assms, where aid = aid and uid = uid and now = now
        and later = later] by blast
qed

theorem withdrawal_endpoints_differ_witness:
  "findById (jobs db_applied) 100 = Some (hd (jobs db_applied)) \<and>
   map app_id (applications (hd (jobs db_applied))) = [500] \<and>
   map app_worker (applications (hd (jobs db_applied))) = [2] \<and>
   map app_status (applications (hd (jobs db_applied))) = [APending] \<and>
   map applicationsCount (jobs db_applied) = [1] \<and>
   fst (fst (delete_application db_applied 2 100)) = 200 \<and>
   map applications (jobs (snd (delete_application db_applied 2 100))) = [[]] \<and>
   map applicationsCount (jobs (snd (delete_application db_applied 2 100))) = [0] \<and>
   canApply 50 (hd (jobs (snd (delete_application db_applied 2 100)))) 2 \<and>
   fst (fst (put_application db_applied 20 2 100 500 ''withdraw'')) = 200 \<and>
   map (map app_status) (map applications
     (jobs (snd (put_application db_applied 20 2 100 500 ''withdraw'')))) = [[AWithdrawn]] \<and>
   map applicationsCount (jobs (snd (put_application db_applied 20 2 100 500 ''withdraw''))) = [1] \<and>
   \<not> canApply 50 (hd (jobs (snd (put_application db_applied 20 2 100 500 ''withdraw'')))) 2"
proof -
  have h: "findById (jobs db_applied) 100 = Some (hd (jobs db_applied))"
    by (simp add: example_defs route_defs)
  show ?thesis
    using h withdrawal_endpoints_differ [OF h, where uid = 2 and later = 50 and aid = 500 and now = 20]
    by (simp add: example_defs route_defs)
qed

section \<open>The ledger and the wallet balance\<close>

lemmas ledger_defs =
  db_wallet_def withdrawal50_def db_withdrawing_def db_settled_def post_withdraw_def
  settle_withdrawal_def process_def fail_def save_txn_def account_def
  createTransaction_def save_balance_def getUserBalance_def Let_def

lemma getUserBalance_append:
  "getUserBalance (ts @ [t]) u =
     getUserBalance ts u + (if txn_user t = u \<and> txn_status t = TCompleted then amount t else 0)"
  by (simp add: getUserBalance_def)

text \<open>
  \<open>createTransaction\<close> saves the entry first and aggregates afterwards: when it returns,
  the cached balance of the entry's account is the sum of its completed entries.
\<close>

lemma createTransaction_balance:
  assumes "createTransaction d data = (Inr t, d')" and "users d (txn_user t) \<noteq> None"
  shows "map_option wallet_balance (users d' (txn_user t)) =
           Some (getUserBalance (transactions d') (txn_user t))"
  using assms
  by (auto simp: createTransaction_def save_balance_def Let_def
           split: option.splits if_splits)


text \<open>
  Claim C1 at a failing input. Account 2 holds one completed earning of 250 and the cached
  balance 250. It withdraws 50: the entry is created pending, and the settlement task
  calls \<open>process\<close> on it. \<open>process\<close> aggregates the balance from the stored entries
  before it saves the entry as completed, so the entry is not in the sum: when the write
  has settled, the completed entries add up to 200 and the cached balance is still 250.
\<close>

theorem settled_withdrawal_leaves_balance:
  "map_option wallet_balance (users db_wallet 2) = Some 250 \<and>
   getUserBalance (transactions db_wallet) 2 = 250 \<and>
   fst (post_withdraw db_wallet 2 50 (Some 9)) =
     (200, ''Withdrawal initiated successfully'', Some withdrawal50) \<and>
   map txn_status (transactions db_withdrawing) = [TCompleted, TPending] \<and>
   map txn_status (transactions db_settled) = [TCompleted, TCompleted] \<and>
   map amount (transactions db_settled) = [250, - 50] \<and>
   getUserBalance (transactions db_settled) 2 = 200 \<and>
   map_option wallet_balance (users db_settled 2) = Some 250"
  by (simp add: ledger_defs)


text \<open>
  Claim C8. For a request that passes validation (an amount of at least 1, a payment
  method id) by an existing account: an amount above the cached balance is answered with
  400 \<open>Insufficient balance\<close> and the database is unchanged, so no entry is created; with
  an amount within the cached balance and a payment method of that id on the account, one
  entry of type \<open>withdrawal\<close>, with the negated amount and status \<open>pending\<close>, is appended
  to the ledger (and the answer is 200 when the completed entries of the account do not
  sum below zero).
\<close>

theorem withdraw_request:
  assumes "users d uid = Some u" and "1 \<le> amt"
  shows "(wallet_balance u < amt \<longrightarrow>
            post_withdraw d uid amt (Some pmid) = ((400, ''Insufficient balance'', None), d)) \<and>
         (amt \<le> wallet_balance u \<and>
          find (\<lambda>p. pm_id p = pmid) (paymentMethods u) = Some pm \<longrightarrow>
            transactions (snd (post_withdraw d uid amt (Some pmid))) =
              transactions d @
                [\<lparr>txn_id = next_id d, txn_user = uid, txn_type = Withdrawal, amount = - amt,
                  currency = wallet_currency u,
                  description = ''Withdrawal to '' @ pm_name pm, txn_job = None,
                  txn_paymentMethod = Some pmid, txn_status = TPending, processedAt = None,
                  failedAt = None, failureReason = None\<rparr>] \<and>
            (0 \<le> getUserBalance (transactions d) uid \<longrightarrow>
               fst (fst (post_withdraw d uid amt (Some pmid))) = 200))"
  using assms
  by (auto simp: post_withdraw_def createTransaction_def save_balance_def Let_def
                 getUserBalance_append)

theorem withdraw_request_witness:
  "users db_wallet 2 = Some ((account 2)\<lparr>wallet_balance := 250\<rparr>) \<and>
   (1::rat) \<le> 300 \<and> (1::rat) \<le> 50 \<and>
   find (\<lambda>p. pm_id p = 9) (paymentMethods ((account 2)\<lparr>wallet_balance := 250\<rparr>))
     = Some \<lparr>pm_id = 9, pm_name = ''Visa''\<rparr> \<and>
   post_withdraw db_wallet 2 300 (Some 9) = ((400, ''Insufficient balance'', None), db_wallet) \<and>
   fst (fst (post_withdraw db_wallet 2 50 (Some 9))) = 200 \<and>
   map txn_type (transactions (snd (post_withdraw db_wallet 2 50 (Some 9)))) = [Earned, Withdrawal] \<and>
   map amount (transactions (snd (post_withdraw db_wallet 2 50 (Some 9)))) = [250, - 50] \<and>
   map txn_status (transactions (snd (post_withdraw db_wallet 2 50 (Some 9))))
     = [TCompleted, TPending]"
proof -
  have h: "users db_wallet 2 = Some ((account 2)\<lparr>wallet_balance := 250\<rparr>)"
    by (simp add: db_wallet_def)
  have a: "(1::rat) \<le> 300" and b: "(1::rat) \<le> 50" by simp_all
  show ?thesis
    using h withdraw_request [OF h a, where pmid = 9]
      withdraw_request [OF h b, where pmid = 9 and pm = "\<lparr>pm_id = 9, pm_name = ''Visa''\<rparr>"]
    by (simp add: ledger_defs)
qed

section \<open>Completing a job\<close>

lemma jobs_save_job_update [simp]:
  "jobs (save_job j (d\<lparr>transactions := ts\<rparr>)) = jobs (save_job j d)"
  "jobs (save_job j (d\<lparr>next_id := n\<rparr>)) = jobs (save_job j d)"
  "jobs (save_job j (d\<lparr>users := us\<rparr>)) = jobs (save_job j d)"
  by (simp_all add: save_job_def)





section \<open>Rating statistics\<close>

lemma floor_numeral_div: "\<lfloor>(numeral a :: rat) / numeral b\<rfloor> = numeral a div numeral b"
  using floor_divide_of_int_eq [of "numeral a" "numeral b", where ?'a = rat] by simp

lemmas rating_defs = floor_numeral_div
  db_four_def db_rated3_def db_rated4_def db_both_rated_def db_rating_updated_def done_job_def
  job0_def account_def no_rating_def post_rating_def put_rating_def delete_rating_def
  valid_rating_body_def truthy_def round1_def js_round_def rated_jobs_def rating_sum_def
  findById_def save_job_def Let_def




text \<open>
  The update handler recomputes the worker's stats from \<open>completion.workerRating\<close>, the
  rating that the worker gave, and not from \<open>completion.employerRating\<close>, which the
  employer has just changed: here the employer's 5 becomes 3 and the worker's average
  becomes 2, the rating that the worker gave the employer.
\<close>

lemma put_rating_reads_workerRating:
  "map rating (map employerRating (jobs db_both_rated)) = [Some 5] \<and>
   map rating (map workerRating (jobs db_both_rated)) = [Some 2] \<and>
   map_option averageRating (users db_both_rated 2) = Some 5 \<and>
   fst (fst (put_rating db_both_rated 43 1 101 3 None)) = 200 \<and>
   map rating (map employerRating (jobs db_rating_updated)) = [Some 3] \<and>
   map_option averageRating (users db_rating_updated 2) = Some 2 \<and>
   map_option totalReviews (users db_rating_updated 2) = Some 1"
  by (simp add: rating_defs)

end
